theory Spec2Isabelle
  imports Complex_Main "HOL-Library.Word"
begin

unbundle bit_operations_syntax

section \<open>PowerupConnection: a shallow embedding of pypowerup.py\<close>

text \<open>
  The class \<^verbatim>\<open>PowerupConnection\<close> wraps a Bluetooth LE client library. Each method is
  modelled as a function from the object's fields (a \<open>session\<close>) and the history of
  interactions with the outside world (an \<open>event list\<close>) to a result, the updated fields
  and the extended history. An exception is the \<open>Inl\<close> branch of the result; the fields
  and the history it returns are the ones in force when the exception was raised.

  The library itself is not part of the program. It is a parameter (\<open>transport\<close>): what a
  scan yields, and whether a connect, read, write or subscription succeeds, may depend in
  any way on the history so far. The \<^verbatim>\<open>print\<close> calls are diagnostics and are not modelled.
\<close>

subsection \<open>Data\<close>

type_synonym byte = "8 word"

type_synonym uuid = string

text \<open>A caller-supplied function taking one \<^verbatim>\<open>int\<close>, known by its identity only.\<close>

type_synonym callback = nat

text \<open>
  The exceptions that can leave a method. \<open>Exception\<close> and \<open>ValueError\<close> carry the message
  given at the \<^verbatim>\<open>raise\<close>; \<open>IndexError\<close> is an index out of range; \<open>AttributeError\<close> is a
  method call on \<^verbatim>\<open>None\<close>; \<open>TransportError\<close> is whatever the library raised.
\<close>

datatype error =
    Exception string
  | ValueError string
  | IndexError
  | AttributeError
  | TransportError string

text \<open>The names the specification gives to the two precondition failures.\<close>

definition NotConnected :: error where
  "NotConnected = Exception ''Not connected to the device''"

fun InvalidArgument :: "error \<Rightarrow> bool" where
  "InvalidArgument (ValueError m) = True"
| "InvalidArgument e = False"

text \<open>A discovered device: \<^verbatim>\<open>d.name\<close> may be \<^verbatim>\<open>None\<close>.\<close>

record device =
  name :: "string option"
  address :: string

text \<open>
  The fields set by \<^verbatim>\<open>__init__\<close>. A \<^verbatim>\<open>BleakClient(address)\<close> object is represented by the
  address it was built for.
\<close>

record session =
  connected :: bool
  client :: "string option"
  device :: "device option"
  battery_callback :: "callback option"

definition init :: session where
  "init = \<lparr>connected = False, client = None, device = None, battery_callback = None\<rparr>"

definition MOTOR_CONTROL_UUID :: uuid where
  "MOTOR_CONTROL_UUID = ''86c3810e-0010-40d9-a117-26b300768cd6''"

definition RUDDER_CONTROL_UUID :: uuid where
  "RUDDER_CONTROL_UUID = ''86c3810e-0021-40d9-a117-26b300768cd6''"

definition BATTERY_LEVEL_UUID :: uuid where
  "BATTERY_LEVEL_UUID = ''00002a19-0000-1000-8000-00805f9b34fb''"

definition BATTERY_CHARGING_UUID :: uuid where
  "BATTERY_CHARGING_UUID = ''86c3810e-0040-40d9-a117-26b300768cd6''"

record characteristic =
  char_uuid :: uuid
  properties :: "string list"

record service =
  service_uuid :: uuid
  characteristics :: "characteristic list"

text \<open>
  The closure \<^verbatim>\<open>notification_handler\<close> built inside \<^verbatim>\<open>enable_battery_notifications\<close>; it
  captures the caller's callback.
\<close>

datatype handler = NotificationHandler callback

text \<open>
  What the program does to the outside world, in order: the calls into the library (with
  the client they go through) and the calls of a caller-supplied callback.
\<close>

datatype event =
    FindDeviceByFilter string real
  | ClientConnect string
  | ClientDisconnect string
  | WriteGattChar string uuid "byte list"
  | ReadGattChar string uuid
  | StartNotify string uuid handler
  | GetServices string
  | CallbackCall callback int

text \<open>
  The library's answers. Each is a function of the history before the call and of the
  call's arguments. \<open>Inl m\<close> and \<open>Some m\<close> stand for an exception with message \<open>m\<close>.
  \<open>scan_reply\<close> lists the devices a scan of the given duration detects, in the order of
  detection.
\<close>

record transport =
  scan_reply :: "event list \<Rightarrow> real \<Rightarrow> string + device list"
  connect_reply :: "event list \<Rightarrow> string \<Rightarrow> string option"
  disconnect_reply :: "event list \<Rightarrow> string \<Rightarrow> string option"
  write_reply :: "event list \<Rightarrow> string \<Rightarrow> uuid \<Rightarrow> byte list \<Rightarrow> string option"
  read_reply :: "event list \<Rightarrow> string \<Rightarrow> uuid \<Rightarrow> string + byte list"
  notify_reply :: "event list \<Rightarrow> string \<Rightarrow> uuid \<Rightarrow> string option"
  services_reply :: "event list \<Rightarrow> string \<Rightarrow> service list"

type_synonym 'a outcome = "(error + 'a) \<times> session \<times> event list"

subsection \<open>Python primitives\<close>

text \<open>
  \<^verbatim>\<open>str.lower()\<close>, on names written in ASCII: the letters A to Z are mapped to a to z and
  every other character is kept.
\<close>

definition lower_char :: "char \<Rightarrow> char" where
  "lower_char c =
     (let n = (of_char c :: nat) in if 65 \<le> n \<and> n \<le> 90 then char_of (n + 32) else c)"

definition str_lower :: "string \<Rightarrow> string" where
  "str_lower s = map lower_char s"

text \<open>\<^verbatim>\<open>bytes([x])\<close>: one byte, or \<^verbatim>\<open>ValueError\<close> when \<open>x\<close> is not in \<^verbatim>\<open>range(256)\<close>.\<close>

definition bytes1 :: "int \<Rightarrow> error + byte list" where
  "bytes1 x =
     (if 0 \<le> x \<and> x < 256 then Inr [word_of_int x]
      else Inl (ValueError ''bytes must be in range(0, 256)''))"

text \<open>\<^verbatim>\<open>data[0]\<close> on a byte sequence.\<close>

definition first_byte :: "byte list \<Rightarrow> error + byte" where
  "first_byte data = (case data of [] \<Rightarrow> Inl IndexError | b # rest \<Rightarrow> Inr b)"

subsection \<open>connect and disconnect\<close>

text \<open>
  The filter passed to the scanner:
  \<^verbatim>\<open>lambda d, ad: d.name and d.name.lower() == target_name.lower()\<close>.
  A name that is \<^verbatim>\<open>None\<close> or empty is falsy, and \<^verbatim>\<open>and\<close> then yields it.
\<close>

definition name_filter :: "string \<Rightarrow> device \<Rightarrow> bool" where
  "name_filter target_name d =
     (case name d of
        None \<Rightarrow> False
      | Some n \<Rightarrow> n \<noteq> [] \<and> str_lower n = str_lower target_name)"

text \<open>
  \<^verbatim>\<open>connect\<close> returns either \<^verbatim>\<open>True\<close> or the pair \<^verbatim>\<open>(False, "CouldNotFind")\<close>.
\<close>

datatype connect_result = RetTrue | RetPair bool string

definition connect :: "transport \<Rightarrow> string \<Rightarrow> real \<Rightarrow> session \<Rightarrow> event list \<Rightarrow> connect_result outcome" where
  "connect tr target_name timeout s hist =
     (let hist1 = hist @ [FindDeviceByFilter target_name timeout] in
      case scan_reply tr hist timeout of
        Inl m \<Rightarrow> (Inl (TransportError m), s, hist1)
      | Inr ds \<Rightarrow>
          (case List.find (name_filter target_name) ds of
             None \<Rightarrow> (Inr (RetPair False ''CouldNotFind''), s\<lparr>device := None\<rparr>, hist1)
           | Some d \<Rightarrow>
               (let s1 = s\<lparr>device := Some d, client := Some (address d)\<rparr>;
                    hist2 = hist1 @ [ClientConnect (address d)]
                in case connect_reply tr hist1 (address d) of
                     Some m \<Rightarrow> (Inl (TransportError m), s1, hist2)
                   | None \<Rightarrow> (Inr RetTrue, s1\<lparr>connected := True\<rparr>, hist2))))"

definition disconnect :: "transport \<Rightarrow> session \<Rightarrow> event list \<Rightarrow> unit outcome" where
  "disconnect tr s hist =
     (case client s of
        None \<Rightarrow> (Inr (), s, hist)
      | Some c \<Rightarrow>
          if connected s then
            (let hist1 = hist @ [ClientDisconnect c] in
             case disconnect_reply tr hist c of
               Some m \<Rightarrow> (Inl (TransportError m), s, hist1)
             | None \<Rightarrow> (Inr (), s\<lparr>connected := False\<rparr>, hist1))
          else (Inr (), s, hist))"

subsection \<open>Control operations\<close>

definition set_motor_speed :: "transport \<Rightarrow> int \<Rightarrow> session \<Rightarrow> event list \<Rightarrow> unit outcome" where
  "set_motor_speed tr speed s hist =
     (if \<not> connected s then (Inl (Exception ''Not connected to the device''), s, hist)
      else if \<not> (0 \<le> speed \<and> speed \<le> 254) then
        (Inl (ValueError ''Speed must be between 0 and 254''), s, hist)
      else
        (case bytes1 speed of
           Inl e \<Rightarrow> (Inl e, s, hist)
         | Inr speed_hex \<Rightarrow>
             (case client s of
                None \<Rightarrow> (Inl AttributeError, s, hist)
              | Some c \<Rightarrow>
                  (let hist1 = hist @ [WriteGattChar c MOTOR_CONTROL_UUID speed_hex] in
                   case write_reply tr hist c MOTOR_CONTROL_UUID speed_hex of
                     Some m \<Rightarrow> (Inl (TransportError m), s, hist1)
                   | None \<Rightarrow> (Inr (), s, hist1)))))"

text \<open>
  \<^verbatim>\<open>angle & 0xFF\<close> on Python's unbounded integers is \<open>AND\<close> on \<open>int\<close>: both read a
  negative number in two's complement.
\<close>

definition set_rudder_angle :: "transport \<Rightarrow> int \<Rightarrow> session \<Rightarrow> event list \<Rightarrow> unit outcome" where
  "set_rudder_angle tr angle s hist =
     (if \<not> connected s then (Inl (Exception ''Not connected to the device''), s, hist)
      else if \<not> (- 128 \<le> angle \<and> angle \<le> 127) then
        (Inl (ValueError ''Angle must be between -128 and 127''), s, hist)
      else
        (case bytes1 (angle AND 255) of
           Inl e \<Rightarrow> (Inl e, s, hist)
         | Inr angle_hex \<Rightarrow>
             (case client s of
                None \<Rightarrow> (Inl AttributeError, s, hist)
              | Some c \<Rightarrow>
                  (let hist1 = hist @ [WriteGattChar c RUDDER_CONTROL_UUID angle_hex] in
                   case write_reply tr hist c RUDDER_CONTROL_UUID angle_hex of
                     Some m \<Rightarrow> (Inl (TransportError m), s, hist1)
                   | None \<Rightarrow> (Inr (), s, hist1)))))"

subsection \<open>Telemetry\<close>

definition get_battery_level :: "transport \<Rightarrow> session \<Rightarrow> event list \<Rightarrow> int outcome" where
  "get_battery_level tr s hist =
     (if \<not> connected s then (Inl (Exception ''Not connected to the device''), s, hist)
      else
        (case client s of
           None \<Rightarrow> (Inl AttributeError, s, hist)
         | Some c \<Rightarrow>
             (let hist1 = hist @ [ReadGattChar c BATTERY_LEVEL_UUID] in
              case read_reply tr hist c BATTERY_LEVEL_UUID of
                Inl m \<Rightarrow> (Inl (TransportError m), s, hist1)
              | Inr data \<Rightarrow>
                  (case first_byte data of
                     Inl e \<Rightarrow> (Inl e, s, hist1)
                   | Inr b \<Rightarrow> (Inr (uint b), s, hist1)))))"

definition get_charging_status :: "transport \<Rightarrow> session \<Rightarrow> event list \<Rightarrow> bool outcome" where
  "get_charging_status tr s hist =
     (if \<not> connected s then (Inl (Exception ''Not connected to the device''), s, hist)
      else
        (case client s of
           None \<Rightarrow> (Inl AttributeError, s, hist)
         | Some c \<Rightarrow>
             (let hist1 = hist @ [ReadGattChar c BATTERY_CHARGING_UUID] in
              case read_reply tr hist c BATTERY_CHARGING_UUID of
                Inl m \<Rightarrow> (Inl (TransportError m), s, hist1)
              | Inr data \<Rightarrow>
                  (case first_byte data of
                     Inl e \<Rightarrow> (Inl e, s, hist1)
                   | Inr b \<Rightarrow> (Inr (uint b \<noteq> 0), s, hist1)))))"

subsection \<open>Notifications\<close>

text \<open>
  The body of \<^verbatim>\<open>notification_handler(sender, data)\<close>: decode \<^verbatim>\<open>data[0]\<close>, then call the
  captured callback with it.
\<close>

definition notification_handler :: "callback \<Rightarrow> int \<Rightarrow> byte list \<Rightarrow> event list \<Rightarrow> (error + unit) \<times> event list" where
  "notification_handler callback sender data hist =
     (case first_byte data of
        Inl e \<Rightarrow> (Inl e, hist)
      | Inr b \<Rightarrow> (let battery_level = uint b in (Inr (), hist @ [CallbackCall callback battery_level])))"

fun run_handler :: "handler \<Rightarrow> int \<Rightarrow> byte list \<Rightarrow> event list \<Rightarrow> (error + unit) \<times> event list" where
  "run_handler (NotificationHandler callback) sender data hist =
     notification_handler callback sender data hist"

definition enable_battery_notifications :: "transport \<Rightarrow> callback \<Rightarrow> session \<Rightarrow> event list \<Rightarrow> unit outcome" where
  "enable_battery_notifications tr callback s hist =
     (if \<not> connected s then (Inl (Exception ''Not connected to the device''), s, hist)
      else
        (case client s of
           None \<Rightarrow> (Inl AttributeError, s, hist)
         | Some c \<Rightarrow>
             (let hist1 = hist @ [StartNotify c BATTERY_LEVEL_UUID (NotificationHandler callback)] in
              case notify_reply tr hist c BATTERY_LEVEL_UUID of
                Some m \<Rightarrow> (Inl (TransportError m), s, hist1)
              | None \<Rightarrow> (Inr (), s, hist1))))"

text \<open>
  The library delivering notifications: it calls the subscribed handler once for each
  payload, in the order of arrival. An exception raised inside the handler stays with
  the library and does not stop later deliveries.
\<close>

fun deliver :: "handler \<Rightarrow> int \<Rightarrow> byte list list \<Rightarrow> event list \<Rightarrow> event list" where
  "deliver h sender [] hist = hist"
| "deliver h sender (data # rest) hist = deliver h sender rest (snd (run_handler h sender data hist))"

subsection \<open>Diagnostics\<close>

text \<open>
  The body of the \<^verbatim>\<open>try\<close> block for one characteristic: a read when \<^verbatim>\<open>"read"\<close> is among
  its properties. The exception of a failed read leaves the block.
\<close>

definition try_read :: "transport \<Rightarrow> string \<Rightarrow> characteristic \<Rightarrow> event list \<Rightarrow> (error + unit) \<times> event list" where
  "try_read tr c ch hist =
     (if ''read'' \<in> set (properties ch) then
        (case read_reply tr hist c (char_uuid ch) of
           Inl m \<Rightarrow> (Inl (TransportError m), hist @ [ReadGattChar c (char_uuid ch)])
         | Inr v \<Rightarrow> (Inr (), hist @ [ReadGattChar c (char_uuid ch)]))
      else (Inr (), hist))"

text \<open>
  The inner loop. \<^verbatim>\<open>except Exception\<close> catches what the \<^verbatim>\<open>try\<close> block raised; both
  branches only print and go on with the next characteristic.
\<close>

fun read_characteristics :: "transport \<Rightarrow> string \<Rightarrow> characteristic list \<Rightarrow> event list \<Rightarrow> event list" where
  "read_characteristics tr c [] hist = hist"
| "read_characteristics tr c (ch # chs) hist =
     (case try_read tr c ch hist of
        (Inl e, hist1) \<Rightarrow> read_characteristics tr c chs hist1
      | (Inr u, hist1) \<Rightarrow> read_characteristics tr c chs hist1)"

text \<open>The outer loop over the services.\<close>

fun read_services :: "transport \<Rightarrow> string \<Rightarrow> service list \<Rightarrow> event list \<Rightarrow> event list" where
  "read_services tr c [] hist = hist"
| "read_services tr c (sv # svs) hist =
     read_services tr c svs (read_characteristics tr c (characteristics sv) hist)"

definition test_all_characteristics :: "transport \<Rightarrow> session \<Rightarrow> event list \<Rightarrow> unit outcome" where
  "test_all_characteristics tr s hist =
     (if \<not> connected s then (Inl (Exception ''Not connected to the device''), s, hist)
      else
        (case client s of
           None \<Rightarrow> (Inl AttributeError, s, hist)
         | Some c \<Rightarrow>
             (let services = services_reply tr hist c;
                  hist1 = hist @ [GetServices c]
              in (Inr (), s, read_services tr c services hist1))))"

subsection \<open>Reachable sessions\<close>

text \<open>
  The sessions a program can see: the one \<^verbatim>\<open>__init__\<close> builds, and every session a method
  leaves behind, whatever the library answers and whether or not the method raises.
\<close>

inductive reachable :: "session \<Rightarrow> bool" where
  r_init: "reachable init"
| r_connect: "reachable s \<Longrightarrow> reachable (fst (snd (connect tr target_name timeout s hist)))"
| r_disconnect: "reachable s \<Longrightarrow> reachable (fst (snd (disconnect tr s hist)))"
| r_set_motor_speed: "reachable s \<Longrightarrow> reachable (fst (snd (set_motor_speed tr speed s hist)))"
| r_set_rudder_angle: "reachable s \<Longrightarrow> reachable (fst (snd (set_rudder_angle tr angle s hist)))"
| r_get_battery_level: "reachable s \<Longrightarrow> reachable (fst (snd (get_battery_level tr s hist)))"
| r_get_charging_status: "reachable s \<Longrightarrow> reachable (fst (snd (get_charging_status tr s hist)))"
| r_enable_battery_notifications:
    "reachable s \<Longrightarrow> reachable (fst (snd (enable_battery_notifications tr callback s hist)))"
| r_test_all_characteristics:
    "reachable s \<Longrightarrow> reachable (fst (snd (test_all_characteristics tr s hist)))"

subsection \<open>A concrete device and library\<close>

text \<open>
  One toy in range, advertised after a nameless device. Every call succeeds; the battery
  level reads 200, the charging status 1, and any other characteristic cannot be read.
\<close>

definition toy :: device where
  "toy = \<lparr>name = Some ''TailorToys PowerUp'', address = ''C0:FF:EE''\<rparr>"

definition toy_services :: "service list" where
  "toy_services =
     [\<lparr>service_uuid = ''86c3810e-f171-40d9-a117-26b300768cd6'',
       characteristics =
         [\<lparr>char_uuid = MOTOR_CONTROL_UUID, properties = [''write'']\<rparr>,
          \<lparr>char_uuid = RUDDER_CONTROL_UUID, properties = [''read'', ''write'']\<rparr>,
          \<lparr>char_uuid = BATTERY_CHARGING_UUID, properties = [''read'']\<rparr>]\<rparr>,
      \<lparr>service_uuid = ''0000180f-0000-1000-8000-00805f9b34fb'',
       characteristics =
         [\<lparr>char_uuid = BATTERY_LEVEL_UUID, properties = [''read'', ''notify'']\<rparr>]\<rparr>]"

definition toy_transport :: transport where
  "toy_transport =
     \<lparr>scan_reply = (\<lambda>hist timeout. Inr [\<lparr>name = None, address = ''00:00:01''\<rparr>, toy]),
      connect_reply = (\<lambda>hist a. None),
      disconnect_reply = (\<lambda>hist a. None),
      write_reply = (\<lambda>hist a u data. None),
      read_reply = (\<lambda>hist a u.
        if u = BATTERY_LEVEL_UUID then Inr [200]
        else if u = BATTERY_CHARGING_UUID then Inr [1]
        else Inl ''read not permitted''),
      notify_reply = (\<lambda>hist a u. None),
      services_reply = (\<lambda>hist a. toy_services)\<rparr>"

definition toy_session :: session where
  "toy_session =
     \<lparr>connected = True, client = Some ''C0:FF:EE'', device = Some toy, battery_callback = None\<rparr>"



definition silent_transport :: transport where
  "silent_transport = toy_transport\<lparr>read_reply := (\<lambda>hist a u. Inr [])\<rparr>"

subsection \<open>Precondition failures\<close>

text \<open>
  A result that is one of the two precondition failures: the exception of the
  connection check, or a \<^verbatim>\<open>ValueError\<close>.
\<close>

fun precondition_failure :: "error + 'a \<Rightarrow> bool" where
  "precondition_failure (Inl e) = (e = NotConnected \<or> InvalidArgument e)"
| "precondition_failure (Inr v) = False"

section \<open>Properties\<close>

subsection \<open>Auxiliary facts\<close>

lemma str_lower_Nil_iff: "str_lower n = [] \<longleftrightarrow> n = []"
  by (simp add: str_lower_def)

lemma reachable_client: "reachable s \<Longrightarrow> connected s \<Longrightarrow> \<exists>c. client s = Some c"
proof (induction rule: reachable.induct)
  case r_init
  then show ?case by (simp add: init_def)
next
  case (r_connect s tr target_name timeout hist)
  then show ?case
    by (auto simp: connect_def Let_def split: sum.splits option.splits)
next
  case (r_disconnect s tr hist)
  then show ?case
    by (auto simp: disconnect_def Let_def split: option.splits if_splits)
next
  case (r_set_motor_speed s tr speed hist)
  then show ?case
    by (auto simp: set_motor_speed_def Let_def split: sum.splits option.splits if_splits)
next
  case (r_set_rudder_angle s tr angle hist)
  then show ?case
    by (auto simp: set_rudder_angle_def Let_def split: sum.splits option.splits if_splits)
next
  case (r_get_battery_level s tr hist)
  then show ?case
    by (auto simp: get_battery_level_def Let_def split: sum.splits option.splits if_splits)
next
  case (r_get_charging_status s tr hist)
  then show ?case
    by (auto simp: get_charging_status_def Let_def split: sum.splits option.splits if_splits)
next
  case (r_enable_battery_notifications s tr callback hist)
  then show ?case
    by (auto simp: enable_battery_notifications_def Let_def split: option.splits if_splits)
next
  case (r_test_all_characteristics s tr hist)
  then show ?case
    by (auto simp: test_all_characteristics_def Let_def split: option.splits if_splits)
qed

lemma lower_toy: "str_lower ''TailorToys PowerUp'' = ''tailortoys powerup''"
  by code_simp

lemma lower_target: "str_lower ''tailortoys POWERUP'' = ''tailortoys powerup''"
  by code_simp

lemma toy_connect:
  "connect toy_transport ''tailortoys POWERUP'' 5 init [] =
     (Inr RetTrue, toy_session,
      [FindDeviceByFilter ''tailortoys POWERUP'' 5, ClientConnect ''C0:FF:EE''])"
  by (simp add: connect_def toy_transport_def toy_session_def toy_def init_def name_filter_def
      lower_toy lower_target)

lemma toy_reachable: "reachable toy_session"
  using r_connect [OF r_init, of toy_transport "''tailortoys POWERUP''" 5 "[]"]
  by (simp add: toy_connect)

lemma toy_connected: "connected toy_session"
  by (simp add: toy_session_def)

lemma uint_byte: "0 \<le> x \<Longrightarrow> x < 256 \<Longrightarrow> uint (word_of_int x :: byte) = x"
  by (simp add: uint_word_of_int)

lemma and_255: "(k::int) AND 255 = k mod 256"
proof -
  have "k AND 255 = k AND mask 8" by (simp add: mask_eq_exp_minus_1)
  also have "\<dots> = take_bit 8 k" by (simp add: take_bit_eq_mask)
  also have "\<dots> = k mod 256" by (simp add: take_bit_eq_mod)
  finally show ?thesis .
qed

lemma bytes1_in_range: "0 \<le> x \<Longrightarrow> x < 256 \<Longrightarrow> bytes1 x = Inr [word_of_int x]"
  by (simp add: bytes1_def)

lemma rudder_byte:
  assumes "- 128 \<le> angle" and "angle \<le> 127"
  shows "bytes1 (angle AND 255) = Inr [word_of_int angle]"
    and "uint (word_of_int angle :: byte) = (angle + 256) mod 256"
proof -
  have "word_of_int (angle mod 256) = (word_of_int angle :: byte)"
    by (simp add: word_uint_eq_iff uint_word_of_int)
  then show "bytes1 (angle AND 255) = Inr [word_of_int angle]"
    by (simp add: bytes1_def and_255)
  show "uint (word_of_int angle :: byte) = (angle + 256) mod 256"
    by (simp add: uint_word_of_int)
qed



lemma deliver_nonempty:
  "\<forall>data\<in>set payloads. data \<noteq> [] \<Longrightarrow>
   deliver (NotificationHandler callback) sender payloads hist =
     hist @ map (\<lambda>data. CallbackCall callback (uint (hd data))) payloads"
proof (induction payloads arbitrary: hist)
  case Nil
  show ?case by simp
next
  case (Cons data rest)
  then obtain b bs where "data = b # bs"
    by (cases data) auto
  with Cons show ?case
    by (simp add: notification_handler_def first_byte_def)
qed



lemma connect_no_precondition_failure:
  "\<not> precondition_failure (fst (connect tr target_name timeout s hist))"
  by (simp add: connect_def Let_def NotConnected_def split: sum.splits option.splits)

lemma disconnect_no_precondition_failure:
  "\<not> precondition_failure (fst (disconnect tr s hist))"
  by (simp add: disconnect_def Let_def NotConnected_def split: option.splits)

subsection \<open>Motor speed\<close>

text \<open>
  Claim C1. In a connected session, \<^verbatim>\<open>set_motor_speed(speed)\<close> with \<open>0 \<le> speed \<le> 254\<close>
  makes exactly one library call: a write, to the motor-control characteristic, of the
  single byte whose unsigned value is \<open>speed\<close>. It returns normally unless that write
  raises. With any other \<open>speed\<close> it makes no call at all and raises the \<^verbatim>\<open>ValueError\<close>
  of the range check.
\<close>

theorem set_motor_speed_write:
  assumes "reachable s" and "connected s"
  shows "(0 \<le> speed \<and> speed \<le> 254 \<longrightarrow>
           (\<exists>c b. client s = Some c \<and> uint b = speed \<and>
              set_motor_speed tr speed s hist =
                ((case write_reply tr hist c MOTOR_CONTROL_UUID [b] of
                    None \<Rightarrow> Inr () | Some m \<Rightarrow> Inl (TransportError m)),
                 s, hist @ [WriteGattChar c MOTOR_CONTROL_UUID [b]])))
       \<and> (\<not> (0 \<le> speed \<and> speed \<le> 254) \<longrightarrow>
           (\<exists>e. InvalidArgument e \<and> set_motor_speed tr speed s hist = (Inl e, s, hist)))"
proof -
  from assms obtain c where c: "client s = Some c"
    using reachable_client by blast
  have inr: "0 \<le> speed \<and> speed \<le> 254 \<Longrightarrow>
      uint (word_of_int speed :: byte) = speed \<and>
      set_motor_speed tr speed s hist =
        ((case write_reply tr hist c MOTOR_CONTROL_UUID [word_of_int speed] of
            None \<Rightarrow> Inr () | Some m \<Rightarrow> Inl (TransportError m)),
         s, hist @ [WriteGattChar c MOTOR_CONTROL_UUID [word_of_int speed]])"
    using assms(2) c
    by (simp add: set_motor_speed_def bytes1_in_range uint_byte Let_def split: option.splits)
  have out: "\<not> (0 \<le> speed \<and> speed \<le> 254) \<Longrightarrow>
      set_motor_speed tr speed s hist = (Inl (ValueError ''Speed must be between 0 and 254''), s, hist)"
    using assms(2) by (simp add: set_motor_speed_def)
  show ?thesis
  proof (intro conjI impI)
    assume "0 \<le> speed \<and> speed \<le> 254"
    from inr [OF this] c
    show "\<exists>c b. client s = Some c \<and> uint b = speed \<and>
              set_motor_speed tr speed s hist =
                ((case write_reply tr hist c MOTOR_CONTROL_UUID [b] of
                    None \<Rightarrow> Inr () | Some m \<Rightarrow> Inl (TransportError m)),
                 s, hist @ [WriteGattChar c MOTOR_CONTROL_UUID [b]])"
      by blast
  next
    assume "\<not> (0 \<le> speed \<and> speed \<le> 254)"
    from out [OF this]
    show "\<exists>e. InvalidArgument e \<and> set_motor_speed tr speed s hist = (Inl e, s, hist)"
      by simp
  qed
qed

theorem set_motor_speed_write_witness:
  "reachable toy_session \<and> connected toy_session
   \<and> set_motor_speed toy_transport 200 toy_session [] =
       (Inr (), toy_session, [WriteGattChar ''C0:FF:EE'' MOTOR_CONTROL_UUID [200]])
   \<and> set_motor_speed toy_transport 255 toy_session [] =
       (Inl (ValueError ''Speed must be between 0 and 254''), toy_session, [])"
proof -
  note t = set_motor_speed_write [OF toy_reachable toy_connected, of _ toy_transport "[]"]
  from t [of 200] have a: "set_motor_speed toy_transport 200 toy_session [] =
       (Inr (), toy_session, [WriteGattChar ''C0:FF:EE'' MOTOR_CONTROL_UUID [200]])"
    by (auto simp: toy_session_def toy_transport_def word_uint_eq_iff)
  from t [of 255] have b: "set_motor_speed toy_transport 255 toy_session [] =
       (Inl (ValueError ''Speed must be between 0 and 254''), toy_session, [])"
    by (auto simp: set_motor_speed_def toy_session_def)
  from a b toy_reachable toy_connected show ?thesis by simp
qed

subsection \<open>Rudder angle\<close>

text \<open>
  Claim C2. In a connected session, \<^verbatim>\<open>set_rudder_angle(angle)\<close> with \<open>-128 \<le> angle \<le> 127\<close>
  makes exactly one library call: a write, to the rudder-control characteristic, of the
  single byte whose unsigned value is \<open>(angle + 256) mod 256\<close>, the two's-complement
  encoding. With any other \<open>angle\<close> it makes no call and raises the \<^verbatim>\<open>ValueError\<close> of the
  range check. In particular \<open>-1\<close> is written as \<open>0xFF\<close>, \<open>127\<close> as \<open>0x7F\<close> and \<open>-128\<close> as
  \<open>0x80\<close>.
\<close>

theorem set_rudder_angle_write:
  assumes "reachable s" and "connected s"
  shows "(- 128 \<le> angle \<and> angle \<le> 127 \<longrightarrow>
           (\<exists>c b. client s = Some c \<and> uint b = (angle + 256) mod 256 \<and>
              set_rudder_angle tr angle s hist =
                ((case write_reply tr hist c RUDDER_CONTROL_UUID [b] of
                    None \<Rightarrow> Inr () | Some m \<Rightarrow> Inl (TransportError m)),
                 s, hist @ [WriteGattChar c RUDDER_CONTROL_UUID [b]])))
       \<and> (\<not> (- 128 \<le> angle \<and> angle \<le> 127) \<longrightarrow>
           (\<exists>e. InvalidArgument e \<and> set_rudder_angle tr angle s hist = (Inl e, s, hist)))
       \<and> (\<exists>c. client s = Some c
            \<and> snd (snd (set_rudder_angle tr (- 1) s hist)) =
                hist @ [WriteGattChar c RUDDER_CONTROL_UUID [0xFF]]
            \<and> snd (snd (set_rudder_angle tr 127 s hist)) =
                hist @ [WriteGattChar c RUDDER_CONTROL_UUID [0x7F]]
            \<and> snd (snd (set_rudder_angle tr (- 128) s hist)) =
                hist @ [WriteGattChar c RUDDER_CONTROL_UUID [0x80]])"
proof -
  from assms obtain c where c: "client s = Some c"
    using reachable_client by blast
  have inr: "set_rudder_angle tr a s hist =
        ((case write_reply tr hist c RUDDER_CONTROL_UUID [word_of_int a] of
            None \<Rightarrow> Inr () | Some m \<Rightarrow> Inl (TransportError m)),
         s, hist @ [WriteGattChar c RUDDER_CONTROL_UUID [word_of_int a]])"
    if "- 128 \<le> a \<and> a \<le> 127" for a
    using assms(2) c that
    by (simp add: set_rudder_angle_def rudder_byte(1) Let_def split: option.splits)
  have out: "\<not> (- 128 \<le> angle \<and> angle \<le> 127) \<Longrightarrow>
      set_rudder_angle tr angle s hist =
        (Inl (ValueError ''Angle must be between -128 and 127''), s, hist)"
    using assms(2) by (simp add: set_rudder_angle_def)
  have general: "- 128 \<le> angle \<and> angle \<le> 127 \<longrightarrow>
           (\<exists>c b. client s = Some c \<and> uint b = (angle + 256) mod 256 \<and>
              set_rudder_angle tr angle s hist =
                ((case write_reply tr hist c RUDDER_CONTROL_UUID [b] of
                    None \<Rightarrow> Inr () | Some m \<Rightarrow> Inl (TransportError m)),
                 s, hist @ [WriteGattChar c RUDDER_CONTROL_UUID [b]]))"
  proof
    assume r: "- 128 \<le> angle \<and> angle \<le> 127"
    then have "uint (word_of_int angle :: byte) = (angle + 256) mod 256"
      using rudder_byte(2) by blast
    with inr [OF r] c show "\<exists>c b. client s = Some c \<and> uint b = (angle + 256) mod 256 \<and>
              set_rudder_angle tr angle s hist =
                ((case write_reply tr hist c RUDDER_CONTROL_UUID [b] of
                    None \<Rightarrow> Inr () | Some m \<Rightarrow> Inl (TransportError m)),
                 s, hist @ [WriteGattChar c RUDDER_CONTROL_UUID [b]])"
      by blast
  qed
  have invalid: "\<not> (- 128 \<le> angle \<and> angle \<le> 127) \<longrightarrow>
           (\<exists>e. InvalidArgument e \<and> set_rudder_angle tr angle s hist = (Inl e, s, hist))"
    using out by simp
  have e1: "snd (snd (set_rudder_angle tr (- 1) s hist)) =
                hist @ [WriteGattChar c RUDDER_CONTROL_UUID [0xFF]]"
    using inr [of "- 1"] by simp
  have e2: "snd (snd (set_rudder_angle tr 127 s hist)) =
                hist @ [WriteGattChar c RUDDER_CONTROL_UUID [0x7F]]"
    using inr [of 127] by simp
  have e3: "snd (snd (set_rudder_angle tr (- 128) s hist)) =
                hist @ [WriteGattChar c RUDDER_CONTROL_UUID [0x80]]"
    using inr [of "- 128"] by (simp add: word_uint_eq_iff uint_word_of_int)
  from general invalid c e1 e2 e3 show ?thesis by blast
qed

theorem set_rudder_angle_write_witness:
  "reachable toy_session \<and> connected toy_session
   \<and> set_rudder_angle toy_transport (- 2) toy_session [] =
       (Inr (), toy_session, [WriteGattChar ''C0:FF:EE'' RUDDER_CONTROL_UUID [254]])
   \<and> set_rudder_angle toy_transport 128 toy_session [] =
       (Inl (ValueError ''Angle must be between -128 and 127''), toy_session, [])"
proof -
  note t = set_rudder_angle_write [OF toy_reachable toy_connected, of _ toy_transport "[]"]
  from t [of "- 2"] have a: "set_rudder_angle toy_transport (- 2) toy_session [] =
       (Inr (), toy_session, [WriteGattChar ''C0:FF:EE'' RUDDER_CONTROL_UUID [254]])"
    by (auto simp: toy_session_def toy_transport_def word_uint_eq_iff)
  from t [of 128] have b: "set_rudder_angle toy_transport 128 toy_session [] =
       (Inl (ValueError ''Angle must be between -128 and 127''), toy_session, [])"
    by (auto simp: set_rudder_angle_def toy_session_def)
  from a b toy_reachable toy_connected show ?thesis by simp
qed

subsection \<open>Operations on a disconnected session\<close>

text \<open>
  Claim C3. While the session is disconnected, each of \<^verbatim>\<open>set_motor_speed\<close>,
  \<^verbatim>\<open>set_rudder_angle\<close>, \<^verbatim>\<open>get_battery_level\<close>, \<^verbatim>\<open>get_charging_status\<close>,
  \<^verbatim>\<open>enable_battery_notifications\<close> and \<^verbatim>\<open>test_all_characteristics\<close> raises the
  not-connected exception, and the history is the one it started with: no library call
  was made.
\<close>

theorem disconnected_operations_fail:
  assumes "\<not> connected s"
  shows "set_motor_speed tr speed s hist = (Inl NotConnected, s, hist)
       \<and> set_rudder_angle tr angle s hist = (Inl NotConnected, s, hist)
       \<and> get_battery_level tr s hist = (Inl NotConnected, s, hist)
       \<and> get_charging_status tr s hist = (Inl NotConnected, s, hist)
       \<and> enable_battery_notifications tr callback s hist = (Inl NotConnected, s, hist)
       \<and> test_all_characteristics tr s hist = (Inl NotConnected, s, hist)"
  using assms
  by (simp add: NotConnected_def set_motor_speed_def set_rudder_angle_def get_battery_level_def
      get_charging_status_def enable_battery_notifications_def test_all_characteristics_def)

theorem disconnected_operations_fail_witness:
  "\<not> connected init
   \<and> set_motor_speed toy_transport 100 init [] = (Inl NotConnected, init, [])
   \<and> set_rudder_angle toy_transport 10 init [] = (Inl NotConnected, init, [])
   \<and> get_battery_level toy_transport init [] = (Inl NotConnected, init, [])
   \<and> get_charging_status toy_transport init [] = (Inl NotConnected, init, [])
   \<and> enable_battery_notifications toy_transport 7 init [] = (Inl NotConnected, init, [])
   \<and> test_all_characteristics toy_transport init [] = (Inl NotConnected, init, [])"
proof -
  have d: "\<not> connected init" by (simp add: init_def)
  from disconnected_operations_fail [OF d, of toy_transport 100 "[]" 10 7] d
  show ?thesis by simp
qed

subsection \<open>Disconnecting\<close>



subsection \<open>Battery level\<close>

text \<open>
  Claim C7. In a connected session, \<^verbatim>\<open>get_battery_level()\<close> makes exactly one library
  call, a read of the battery-level characteristic. When the read yields a payload whose
  first byte is \<open>b\<close>, the method returns the unsigned value of \<open>b\<close> as it is, for each of the
  256 byte values: nothing compares it with the percentage range 0 to 100.
\<close>

theorem get_battery_level_byte:
  assumes "reachable s" and "connected s"
  shows "\<exists>c. client s = Some c \<and>
           (\<forall>b rest. read_reply tr hist c BATTERY_LEVEL_UUID = Inr (b # rest) \<longrightarrow>
              get_battery_level tr s hist = (Inr (uint b), s, hist @ [ReadGattChar c BATTERY_LEVEL_UUID])
              \<and> 0 \<le> uint b \<and> uint b \<le> 255)"
proof -
  from assms obtain c where c: "client s = Some c"
    using reachable_client by blast
  have "uint b \<le> 255" for b :: byte
    using uint_bounded [of b] by simp
  with assms(2) c show ?thesis
    by (auto simp: get_battery_level_def first_byte_def Let_def)
qed

theorem get_battery_level_byte_witness:
  "reachable toy_session \<and> connected toy_session
   \<and> read_reply toy_transport [] ''C0:FF:EE'' BATTERY_LEVEL_UUID = Inr [200]
   \<and> get_battery_level toy_transport toy_session [] =
       (Inr 200, toy_session, [ReadGattChar ''C0:FF:EE'' BATTERY_LEVEL_UUID])"
proof -
  have r: "read_reply toy_transport [] ''C0:FF:EE'' BATTERY_LEVEL_UUID = Inr [200]"
    by (simp add: toy_transport_def)
  have c: "client toy_session = Some ''C0:FF:EE''"
    by (simp add: toy_session_def)
  from get_battery_level_byte [OF toy_reachable toy_connected, of toy_transport "[]"] r c
  have "get_battery_level toy_transport toy_session [] =
       (Inr 200, toy_session, [ReadGattChar ''C0:FF:EE'' BATTERY_LEVEL_UUID])"
    by auto
  with r toy_reachable toy_connected show ?thesis by simp
qed

subsection \<open>Connecting\<close>




subsection \<open>Battery notifications\<close>

text \<open>
  Claim C6, as stated, at a concrete input. After a successful
  \<^verbatim>\<open>enable_battery_notifications\<close>, the library delivers one payload, of no bytes. The
  handler raises on \<^verbatim>\<open>data[0]\<close> before it reaches the callback: one payload was delivered
  and the callback was not called.
\<close>

theorem blank_notification_counterexample:
  "enable_battery_notifications toy_transport 7 toy_session [] =
     (Inr (), toy_session, [StartNotify ''C0:FF:EE'' BATTERY_LEVEL_UUID (NotificationHandler 7)])
   \<and> deliver (NotificationHandler 7) 0 [ [] ]
       [StartNotify ''C0:FF:EE'' BATTERY_LEVEL_UUID (NotificationHandler 7)] =
     [StartNotify ''C0:FF:EE'' BATTERY_LEVEL_UUID (NotificationHandler 7)]"
  by (simp add: enable_battery_notifications_def toy_session_def toy_transport_def
      notification_handler_def first_byte_def)

text \<open>
  Claim C6, amended. In a connected session, \<^verbatim>\<open>enable_battery_notifications(callback)\<close>
  makes exactly one library call, the subscription of its handler to the battery-level
  characteristic, and calls no callback itself. When the library then delivers payloads
  that each hold at least one byte, the callback is called exactly once for each payload,
  in the order of delivery, with the unsigned value of the payload's first byte. A
  delivery of the byte \<open>0x32\<close> is one call with 50.
\<close>

theorem battery_notifications_delivery:
  assumes "reachable s" and "connected s"
  shows "\<exists>c. client s = Some c
       \<and> enable_battery_notifications tr callback s hist =
           ((case notify_reply tr hist c BATTERY_LEVEL_UUID of
               None \<Rightarrow> Inr () | Some m \<Rightarrow> Inl (TransportError m)),
            s, hist @ [StartNotify c BATTERY_LEVEL_UUID (NotificationHandler callback)])
       \<and> (\<forall>payloads hist1. (\<forall>data\<in>set payloads. data \<noteq> []) \<longrightarrow>
            deliver (NotificationHandler callback) sender payloads hist1 =
              hist1 @ map (\<lambda>data. CallbackCall callback (uint (hd data))) payloads)
       \<and> (\<forall>hist1. deliver (NotificationHandler callback) sender [ [0x32] ] hist1 =
            hist1 @ [CallbackCall callback 50])"
proof -
  from assms obtain c where c: "client s = Some c"
    using reachable_client by blast
  have reg: "enable_battery_notifications tr callback s hist =
           ((case notify_reply tr hist c BATTERY_LEVEL_UUID of
               None \<Rightarrow> Inr () | Some m \<Rightarrow> Inl (TransportError m)),
            s, hist @ [StartNotify c BATTERY_LEVEL_UUID (NotificationHandler callback)])"
    using assms(2) c
    by (simp add: enable_battery_notifications_def Let_def split: option.splits)
  have one: "deliver (NotificationHandler callback) sender [ [0x32] ] hist1 =
            hist1 @ [CallbackCall callback 50]" for hist1
    by (simp add: notification_handler_def first_byte_def)
  from c reg one deliver_nonempty show ?thesis
    by blast
qed

theorem battery_notifications_delivery_witness:
  "reachable toy_session \<and> connected toy_session
   \<and> enable_battery_notifications toy_transport 7 toy_session [] =
       (Inr (), toy_session, [StartNotify ''C0:FF:EE'' BATTERY_LEVEL_UUID (NotificationHandler 7)])
   \<and> deliver (NotificationHandler 7) 0 [ [0x32], [0x64, 0x01] ]
       [StartNotify ''C0:FF:EE'' BATTERY_LEVEL_UUID (NotificationHandler 7)] =
     [StartNotify ''C0:FF:EE'' BATTERY_LEVEL_UUID (NotificationHandler 7),
      CallbackCall 7 50, CallbackCall 7 100]"
proof -
  from battery_notifications_delivery [OF toy_reachable toy_connected, of toy_transport 7 "[]" 0]
  obtain c where c: "client toy_session = Some c"
    and reg: "enable_battery_notifications toy_transport 7 toy_session [] =
           ((case notify_reply toy_transport [] c BATTERY_LEVEL_UUID of
               None \<Rightarrow> Inr () | Some m \<Rightarrow> Inl (TransportError m)),
            toy_session, [] @ [StartNotify c BATTERY_LEVEL_UUID (NotificationHandler 7)])"
    and del: "\<And>payloads hist1. (\<forall>data\<in>set payloads. data \<noteq> []) \<Longrightarrow>
            deliver (NotificationHandler 7) 0 payloads hist1 =
              hist1 @ map (\<lambda>data. CallbackCall 7 (uint (hd data))) payloads"
    by blast
  from c have c': "c = ''C0:FF:EE''"
    by (simp add: toy_session_def)
  have ne: "\<forall>data\<in>set [ [0x32], [0x64, 0x01] ]. data \<noteq> ([] :: byte list)"
    by simp
  from del [OF ne] reg c' ne toy_reachable toy_connected show ?thesis
    by (simp add: toy_transport_def)
qed

subsection \<open>Reading every characteristic\<close>



subsection \<open>Failed preconditions leave the session alone\<close>

text \<open>
  Claim C9. When one of the six guarded methods fails on a precondition, that is with
  the not-connected exception or with a \<^verbatim>\<open>ValueError\<close>, the session afterwards is the
  session before the call: the connected flag, the client, the device and the stored
  callback are all unchanged. (\<^verbatim>\<open>connect\<close> and \<^verbatim>\<open>disconnect\<close> have no such failure.)
\<close>

theorem precondition_failure_keeps_session:
  "(precondition_failure (fst (set_motor_speed tr speed s hist)) \<longrightarrow>
      fst (snd (set_motor_speed tr speed s hist)) = s)
   \<and> (precondition_failure (fst (set_rudder_angle tr angle s hist)) \<longrightarrow>
      fst (snd (set_rudder_angle tr angle s hist)) = s)
   \<and> (precondition_failure (fst (get_battery_level tr s hist)) \<longrightarrow>
      fst (snd (get_battery_level tr s hist)) = s)
   \<and> (precondition_failure (fst (get_charging_status tr s hist)) \<longrightarrow>
      fst (snd (get_charging_status tr s hist)) = s)
   \<and> (precondition_failure (fst (enable_battery_notifications tr callback s hist)) \<longrightarrow>
      fst (snd (enable_battery_notifications tr callback s hist)) = s)
   \<and> (precondition_failure (fst (test_all_characteristics tr s hist)) \<longrightarrow>
      fst (snd (test_all_characteristics tr s hist)) = s)"
proof (intro conjI)
  show "precondition_failure (fst (set_motor_speed tr speed s hist)) \<longrightarrow>
      fst (snd (set_motor_speed tr speed s hist)) = s"
    by (simp add: set_motor_speed_def Let_def split: sum.splits option.splits)
  show "precondition_failure (fst (set_rudder_angle tr angle s hist)) \<longrightarrow>
      fst (snd (set_rudder_angle tr angle s hist)) = s"
    by (simp add: set_rudder_angle_def Let_def split: sum.splits option.splits)
  show "precondition_failure (fst (get_battery_level tr s hist)) \<longrightarrow>
      fst (snd (get_battery_level tr s hist)) = s"
    by (simp add: get_battery_level_def Let_def split: sum.splits option.splits)
  show "precondition_failure (fst (get_charging_status tr s hist)) \<longrightarrow>
      fst (snd (get_charging_status tr s hist)) = s"
    by (simp add: get_charging_status_def Let_def split: sum.splits option.splits)
  show "precondition_failure (fst (enable_battery_notifications tr callback s hist)) \<longrightarrow>
      fst (snd (enable_battery_notifications tr callback s hist)) = s"
    by (simp add: enable_battery_notifications_def Let_def split: option.splits)
  show "precondition_failure (fst (test_all_characteristics tr s hist)) \<longrightarrow>
      fst (snd (test_all_characteristics tr s hist)) = s"
    by (simp add: test_all_characteristics_def Let_def split: option.splits)
qed

theorem precondition_failure_keeps_session_witness:
  "precondition_failure (fst (set_motor_speed toy_transport 300 toy_session []))
   \<and> fst (snd (set_motor_speed toy_transport 300 toy_session [])) = toy_session
   \<and> precondition_failure (fst (set_rudder_angle toy_transport (- 129) toy_session []))
   \<and> fst (snd (set_rudder_angle toy_transport (- 129) toy_session [])) = toy_session
   \<and> precondition_failure (fst (get_battery_level toy_transport init []))
   \<and> fst (snd (get_battery_level toy_transport init [])) = init
   \<and> precondition_failure (fst (get_charging_status toy_transport init []))
   \<and> fst (snd (get_charging_status toy_transport init [])) = init
   \<and> precondition_failure (fst (enable_battery_notifications toy_transport 7 init []))
   \<and> fst (snd (enable_battery_notifications toy_transport 7 init [])) = init
   \<and> precondition_failure (fst (test_all_characteristics toy_transport init []))
   \<and> fst (snd (test_all_characteristics toy_transport init [])) = init"
proof -
  have m: "precondition_failure (fst (set_motor_speed toy_transport 300 toy_session []))"
    by (simp add: set_motor_speed_def toy_session_def)
  have r: "precondition_failure (fst (set_rudder_angle toy_transport (- 129) toy_session []))"
    by (simp add: set_rudder_angle_def toy_session_def)
  have d: "\<not> connected init"
    by (simp add: init_def)
  have b: "precondition_failure (fst (get_battery_level toy_transport init []))"
    using d by (simp add: get_battery_level_def NotConnected_def)
  have g: "precondition_failure (fst (get_charging_status toy_transport init []))"
    using d by (simp add: get_charging_status_def NotConnected_def)
  have e: "precondition_failure (fst (enable_battery_notifications toy_transport 7 init []))"
    using d by (simp add: enable_battery_notifications_def NotConnected_def)
  have t: "precondition_failure (fst (test_all_characteristics toy_transport init []))"
    using d by (simp add: test_all_characteristics_def NotConnected_def)
  from precondition_failure_keeps_session [of toy_transport 300 toy_session "[]" "- 129" 7]
    precondition_failure_keeps_session [of toy_transport 0 init "[]" 0 7]
    m r b g e t
  show ?thesis by simp
qed

subsection \<open>Access to the first byte\<close>

text \<open>
  Claim C10. \<^verbatim>\<open>get_battery_level\<close>, \<^verbatim>\<open>get_charging_status\<close> and the notification handler
  look at index 0 of the payload only. On a payload that is not empty the access is in
  range and the result is computed from that byte alone; on an empty payload they fail
  with \<^verbatim>\<open>IndexError\<close> and yield no value (the handler does not call the callback).
\<close>

theorem first_byte_access:
  assumes "reachable s" and "connected s"
  shows "\<exists>c. client s = Some c
       \<and> (\<forall>data. read_reply tr hist c BATTERY_LEVEL_UUID = Inr data \<longrightarrow>
            (data \<noteq> [] \<longrightarrow> fst (get_battery_level tr s hist) = Inr (uint (data ! 0)))
            \<and> (data = [] \<longrightarrow> fst (get_battery_level tr s hist) = Inl IndexError))
       \<and> (\<forall>data. read_reply tr hist c BATTERY_CHARGING_UUID = Inr data \<longrightarrow>
            (data \<noteq> [] \<longrightarrow> fst (get_charging_status tr s hist) = Inr (uint (data ! 0) \<noteq> 0))
            \<and> (data = [] \<longrightarrow> fst (get_charging_status tr s hist) = Inl IndexError))
       \<and> (\<forall>data hist1.
            (data \<noteq> [] \<longrightarrow>
               notification_handler callback sender data hist1 =
                 (Inr (), hist1 @ [CallbackCall callback (uint (data ! 0))]))
            \<and> (data = [] \<longrightarrow>
               notification_handler callback sender data hist1 = (Inl IndexError, hist1)))"
proof -
  from assms obtain c where c: "client s = Some c"
    using reachable_client by blast
  have fb: "first_byte data = (if data = [] then Inl IndexError else Inr (data ! 0))" for data
    by (cases data) (simp_all add: first_byte_def)
  have level: "\<forall>data. read_reply tr hist c BATTERY_LEVEL_UUID = Inr data \<longrightarrow>
            (data \<noteq> [] \<longrightarrow> fst (get_battery_level tr s hist) = Inr (uint (data ! 0)))
            \<and> (data = [] \<longrightarrow> fst (get_battery_level tr s hist) = Inl IndexError)"
    using assms(2) c by (simp add: get_battery_level_def Let_def fb)
  have charging: "\<forall>data. read_reply tr hist c BATTERY_CHARGING_UUID = Inr data \<longrightarrow>
            (data \<noteq> [] \<longrightarrow> fst (get_charging_status tr s hist) = Inr (uint (data ! 0) \<noteq> 0))
            \<and> (data = [] \<longrightarrow> fst (get_charging_status tr s hist) = Inl IndexError)"
    using assms(2) c by (simp add: get_charging_status_def Let_def fb)
  have handler: "\<forall>data hist1.
            (data \<noteq> [] \<longrightarrow>
               notification_handler callback sender data hist1 =
                 (Inr (), hist1 @ [CallbackCall callback (uint (data ! 0))]))
            \<and> (data = [] \<longrightarrow>
               notification_handler callback sender data hist1 = (Inl IndexError, hist1))"
    by (simp add: notification_handler_def fb)
  from c level charging handler show ?thesis by blast
qed

theorem first_byte_access_witness:
  "reachable toy_session \<and> connected toy_session
   \<and> read_reply toy_transport [] ''C0:FF:EE'' BATTERY_LEVEL_UUID = Inr [200]
   \<and> fst (get_battery_level toy_transport toy_session []) = Inr 200
   \<and> read_reply toy_transport [] ''C0:FF:EE'' BATTERY_CHARGING_UUID = Inr [1]
   \<and> fst (get_charging_status toy_transport toy_session []) = Inr True
   \<and> notification_handler 7 0 [0x32, 0x07] [] = (Inr (), [CallbackCall 7 50])
   \<and> read_reply silent_transport [] ''C0:FF:EE'' BATTERY_LEVEL_UUID = Inr []
   \<and> fst (get_battery_level silent_transport toy_session []) = Inl IndexError
   \<and> read_reply silent_transport [] ''C0:FF:EE'' BATTERY_CHARGING_UUID = Inr []
   \<and> fst (get_charging_status silent_transport toy_session []) = Inl IndexError
   \<and> notification_handler 7 0 [] [] = (Inl IndexError, [])"
proof -
  have c: "client toy_session = Some ''C0:FF:EE''"
    by (simp add: toy_session_def)
  have r1: "read_reply toy_transport [] ''C0:FF:EE'' BATTERY_LEVEL_UUID = Inr [200]"
    by (simp add: toy_transport_def)
  have r2: "read_reply toy_transport [] ''C0:FF:EE'' BATTERY_CHARGING_UUID = Inr [1]"
    by (simp add: toy_transport_def BATTERY_LEVEL_UUID_def BATTERY_CHARGING_UUID_def)
  have r3: "read_reply silent_transport [] ''C0:FF:EE'' u = Inr []" for u
    by (simp add: silent_transport_def)
  from first_byte_access [OF toy_reachable toy_connected, of toy_transport "[]" 7 0] c r1 r2
  have a: "fst (get_battery_level toy_transport toy_session []) = Inr 200
      \<and> fst (get_charging_status toy_transport toy_session []) = Inr True
      \<and> notification_handler 7 0 [0x32, 0x07] [] = (Inr (), [CallbackCall 7 50])"
    by auto
  from first_byte_access [OF toy_reachable toy_connected, of silent_transport "[]" 7 0] c r3
  have b: "fst (get_battery_level silent_transport toy_session []) = Inl IndexError
      \<and> fst (get_charging_status silent_transport toy_session []) = Inl IndexError
      \<and> notification_handler 7 0 [] [] = (Inl IndexError, [])"
    by auto
  from a b r1 r2 r3 toy_reachable toy_connected show ?thesis by simp
qed

end
